theory Spec2Isabelle
  imports Main
begin

section \<open>Decimal arithmetic of the fee helpers\<close>

text \<open>
  The fee helpers of \<^verbatim>\<open>ff_deposit.py\<close> and \<^verbatim>\<open>ff_cooldown.py\<close> compute with
  Python's \<^verbatim>\<open>decimal.Decimal\<close> in the default context: every arithmetic result is
  rounded to 28 significant digits, ties to the even neighbour, while the constructor
  \<^verbatim>\<open>Decimal(n)\<close> of an integer is exact. All quantities of the scripts are
  non-negative (fees in wei, gas units, a percentage), so a Decimal is modelled by its
  coefficient, a natural number, at a fixed scale: units for sums of integers,
  hundredths for the product with \<^verbatim>\<open>1.10\<close>, the scale of \<^verbatim>\<open>pct/100\<close> for the
  products with \<^verbatim>\<open>1 + pct/100\<close>.

  \<open>sig_unit c\<close> is the weight of the last of the 28 leading digits of \<open>c\<close>
  (\<open>1\<close> when \<open>c\<close> has at most 28 digits); \<open>dec_round c\<close> is \<open>c\<close> rounded to a
  multiple of that weight, ties to even. Since the rounding depends on the value only,
  trailing zeros of the coefficient make no difference.
\<close>

function sig_unit :: "nat \<Rightarrow> nat" where
  "sig_unit c = (if c < 10 ^ 28 then 1 else 10 * sig_unit (c div 10))"
  by pat_completeness auto
termination
  by (relation "measure (\<lambda>c. c)") auto

declare sig_unit.simps [simp del]

definition dec_round :: "nat \<Rightarrow> nat" where
  "dec_round c =
     (let u = sig_unit c; q = c div u; r = c mod u
      in (if 2 * r < u \<or> (2 * r = u \<and> even q) then q else q + 1) * u)"

section \<open>Fee bids\<close>

record fees =
  maxPriorityFeePerGas :: nat
  maxFeePerGas :: nat

text \<open>
  The bump percentage is a Decimal: the non-negative value
  \<open>coefficient / 10 ^ places\<close>, which every finite non-negative Decimal has for some
  coefficient and number of places. \<open>Decimal_int n\<close> is \<^verbatim>\<open>Decimal(n)\<close> of an
  integer, as in \<^verbatim>\<open>Decimal(BUMP_PCT)\<close>.
\<close>

record decimal =
  coefficient :: nat
  places :: nat

definition Decimal_int :: "nat \<Rightarrow> decimal" where
  "Decimal_int n = \<lparr> coefficient = n, places = 0 \<rparr>"

text \<open>
  \<^verbatim>\<open>mul = (Decimal(1) + Decimal(bump_pct)/Decimal(100))\<close>, as a coefficient at the
  scale of \<^verbatim>\<open>bump_pct/100\<close>, which is \<open>10 ^ (places + 2)\<close>: the quotient is rounded,
  then the sum.
\<close>

definition bump_scale :: "decimal \<Rightarrow> nat" where
  "bump_scale bump_pct = 10 ^ (places bump_pct + 2)"

definition bump_mul :: "decimal \<Rightarrow> nat" where
  "bump_mul bump_pct = dec_round (bump_scale bump_pct + dec_round (coefficient bump_pct))"

text \<open>
  \<^verbatim>\<open>int(Decimal(fees[k]) * mul)\<close> for both keys: the product is rounded in the
  context, \<^verbatim>\<open>int\<close> drops the fraction.
\<close>

definition bump_fees :: "fees \<Rightarrow> decimal \<Rightarrow> fees" where
  "bump_fees fs bump_pct =
     (let mul = bump_mul bump_pct; scale = bump_scale bump_pct
      in \<lparr> maxPriorityFeePerGas = dec_round (maxPriorityFeePerGas fs * mul) div scale,
           maxFeePerGas = dec_round (maxFeePerGas fs * mul) div scale \<rparr>)"

section \<open>Nonce manager\<close>

text \<open>
  \<^verbatim>\<open>class NonceManager\<close>: the account's address and the cursor \<^verbatim>\<open>_nonce\<close>, a
  Python integer. \<^verbatim>\<open>next\<close> returns the cursor and advances it, \<^verbatim>\<open>back\<close> steps it
  back with a floor of zero. (The names \<open>next\<close> and \<open>back\<close> are taken in Isabelle.)
  The constructor and \<^verbatim>\<open>sync\<close> set the cursor to the node's pending count; the
  sender calls neither, so a nonce manager enters here with whatever cursor it has.
\<close>

record NonceManager =
  address :: string
  nm_nonce :: int

definition nonce_current :: "NonceManager \<Rightarrow> int" where
  "nonce_current nm = nm_nonce nm"

definition nonce_next :: "NonceManager \<Rightarrow> int \<times> NonceManager" where
  "nonce_next nm = (nm_nonce nm, nm\<lparr>nm_nonce := nm_nonce nm + 1\<rparr>)"

definition nonce_back :: "NonceManager \<Rightarrow> NonceManager" where
  "nonce_back nm = nm\<lparr>nm_nonce := max 0 (nm_nonce nm - 1)\<rparr>"

section \<open>Transactions\<close>

text \<open>
  The transaction dictionary with the keys the callers build (\<^verbatim>\<open>chainId\<close>,
  \<^verbatim>\<open>from\<close>, \<^verbatim>\<open>to\<close>, \<^verbatim>\<open>value\<close>, \<^verbatim>\<open>data\<close> and the two fee keys of
  \<^verbatim>\<open>**fees\<close>); \<^verbatim>\<open>send_with_rbf\<close> adds \<^verbatim>\<open>nonce\<close>, then \<^verbatim>\<open>gas\<close>.
\<close>

record tx_fields = fees +
  chainId :: nat
  from_addr :: string
  to_addr :: string
  value_wei :: nat
  data :: string

record tx_draft = tx_fields +
  nonce :: int

record tx = tx_draft +
  gas :: nat

definition with_nonce :: "tx_fields \<Rightarrow> int \<Rightarrow> tx_draft" where
  "with_nonce f n =
     \<lparr> maxPriorityFeePerGas = maxPriorityFeePerGas f, maxFeePerGas = maxFeePerGas f,
       chainId = chainId f, from_addr = from_addr f, to_addr = to_addr f,
       value_wei = value_wei f, data = data f, nonce = n \<rparr>"

definition with_gas :: "tx_draft \<Rightarrow> nat \<Rightarrow> tx" where
  "with_gas d g =
     \<lparr> maxPriorityFeePerGas = maxPriorityFeePerGas d, maxFeePerGas = maxFeePerGas d,
       chainId = chainId d, from_addr = from_addr d, to_addr = to_addr d,
       value_wei = value_wei d, data = data d, nonce = nonce d, gas = g \<rparr>"

section \<open>The node and the signer\<close>

text \<open>
  What the scripts read from the RPC client \<^verbatim>\<open>w3.eth\<close>, as an oracle; \<open>None\<close> is
  a call that raises.
  \<^item> \<open>fee_history\<close>: the list \<^verbatim>\<open>fee_history(3, "latest")["baseFeePerGas"]\<close>;
  \<^item> \<open>gas_price\<close>: \<^verbatim>\<open>w3.eth.gas_price\<close>;
  \<^item> \<open>estimate_gas\<close>: \<^verbatim>\<open>w3.eth.estimate_gas(tx)\<close>;
  \<^item> \<open>send_raw_transaction k raw\<close>: the hexadecimal hash the node returns for the
    \<open>k\<close>-th broadcast of one call of \<^verbatim>\<open>send_with_rbf\<close> (counted from 0);
  \<^item> \<open>receipt_polls max_wait k\<close>: the answers of \<^verbatim>\<open>get_transaction_receipt\<close> to
    the polls of round \<open>k\<close>, in order, up to the moment the clock ends the inner loop
    \<^verbatim>\<open>while time.time() - t0 < max_wait\<close> (each pass sleeps 5 seconds, so they are
    finitely many).
\<close>

datatype poll = Poll_raises | Poll_none | Poll_receipt "int option"

record w3 =
  fee_history :: "nat list option"
  gas_price :: "nat option"
  estimate_gas :: "tx_draft \<Rightarrow> nat option"
  send_raw_transaction :: "nat \<Rightarrow> string \<Rightarrow> string option"
  receipt_polls :: "int \<Rightarrow> nat \<Rightarrow> poll list"

text \<open>
  \<^verbatim>\<open>signed_raw_tx_bytes(account.sign_transaction(tx))\<close>: the raw bytes, or \<open>None\<close>
  when signing or the extraction of the bytes raises.
\<close>

record account =
  acct_address :: string
  sign_transaction :: "tx \<Rightarrow> string option"

datatype error = Gas_price_failed | Estimation_failed | Signing_failed | Broadcast_failed

section \<open>Fee and gas helpers\<close>

text \<open>
  \<^verbatim>\<open>suggest_fees\<close>. The base fee is the last entry of the fee history; any exception
  there (the call, or \<^verbatim>\<open>[-1]\<close> on an empty list) falls back to the gas price, whose
  own failure propagates. \<open>priority\<close> is the hint in wei, the integer that
  \<^verbatim>\<open>Web3.to_wei(float(priority_gwei), "gwei")\<close> returns. The sum
  \<^verbatim>\<open>base + priority * 2\<close> is a Decimal sum, rounded in the context.
\<close>

definition suggest_fees :: "w3 \<Rightarrow> nat \<Rightarrow> error + fees" where
  "suggest_fees w priority =
     (case (case fee_history w of
              None \<Rightarrow> gas_price w
            | Some [] \<Rightarrow> gas_price w
            | Some (b # bs) \<Rightarrow> Some (last (b # bs))) of
        None \<Rightarrow> Inl Gas_price_failed
      | Some base \<Rightarrow>
          Inr \<lparr> maxPriorityFeePerGas = priority,
                maxFeePerGas = dec_round (base + priority * 2) \<rparr>)"

text \<open>
  \<^verbatim>\<open>estimate_gas_safe\<close>: \<^verbatim>\<open>int(Decimal(gas_est) * Decimal("1.10"))\<close>, the product in
  hundredths; on an exception the fallback, or the exception again when there is none.
\<close>

definition estimate_gas_safe :: "w3 \<Rightarrow> tx_draft \<Rightarrow> nat option \<Rightarrow> error + nat" where
  "estimate_gas_safe w d fallback_gas =
     (case estimate_gas w d of
        Some gas_est \<Rightarrow> Inr (dec_round (gas_est * 110) div 100)
      | None \<Rightarrow>
          (case fallback_gas of
             None \<Rightarrow> Inl Estimation_failed
           | Some g \<Rightarrow> Inr g))"

section \<open>Sender with replace-by-fee\<close>

definition MAX_WAIT :: int where "MAX_WAIT = 60"
definition MAX_RETRIES :: int where "MAX_RETRIES = 3"
definition BUMP_PCT :: nat where "BUMP_PCT = 20"

text \<open>
  The function returns the hash only; the model also returns which of the three
  \<^verbatim>\<open>return tx_hex\<close> exits was taken, the nonce manager as the call leaves it, and the
  calls with an effect outside the function, in order.
\<close>

datatype outcome = Confirmed_Success | Confirmed_Failure | Abandoned

datatype event =
    Nonce_next int
  | Estimate_gas nat
  | Broadcast tx string
  | Nonce_back
  | Bump fees

text \<open>
  The inner loop: the status of the first answer that is a receipt with a
  \<^verbatim>\<open>status\<close> attribute; exceptions, absent receipts and receipts without a status are
  passed over; \<open>None\<close> when the wait budget ends first.
\<close>

fun poll_loop :: "poll list \<Rightarrow> int option" where
  "poll_loop [] = None"
| "poll_loop (Poll_receipt (Some status) # ps) = Some status"
| "poll_loop (p # ps) = poll_loop ps"

text \<open>
  The outer \<^verbatim>\<open>while True\<close> loop, entered with \<open>attempt\<close> rounds behind it. The bump
  is \<^verbatim>\<open>bump_fees(fees, Decimal(BUMP_PCT))\<close> with the module constant, as in the source.
\<close>

function rbf_loop ::
  "w3 \<Rightarrow> account \<Rightarrow> int \<Rightarrow> int \<Rightarrow> nat \<Rightarrow> tx \<Rightarrow> fees \<Rightarrow> NonceManager \<Rightarrow> event list \<Rightarrow>
     (error + outcome \<times> string) \<times> NonceManager \<times> event list" where
  "rbf_loop w acct max_wait max_retries attempt t fs nm evs =
     (case sign_transaction acct t of
        None \<Rightarrow> (Inl Signing_failed, nm, evs)
      | Some raw \<Rightarrow>
          (case send_raw_transaction w attempt raw of
             None \<Rightarrow> (Inl Broadcast_failed, nm, evs)
           | Some tx_hex \<Rightarrow>
               (case poll_loop (receipt_polls w max_wait attempt) of
                  Some status \<Rightarrow>
                    (Inr (if status = 1 then Confirmed_Success else Confirmed_Failure, tx_hex),
                     nm, evs @ [Broadcast t tx_hex])
                | None \<Rightarrow>
                    if int (attempt + 1) > max_retries
                    then (Inr (Abandoned, tx_hex), nm, evs @ [Broadcast t tx_hex])
                    else rbf_loop w acct max_wait max_retries (attempt + 1)
                           (t\<lparr> maxPriorityFeePerGas := maxPriorityFeePerGas (bump_fees fs (Decimal_int BUMP_PCT)),
                               maxFeePerGas := maxFeePerGas (bump_fees fs (Decimal_int BUMP_PCT)) \<rparr>)
                           (bump_fees fs (Decimal_int BUMP_PCT))
                           (nonce_back nm)
                           (evs @ [Broadcast t tx_hex, Nonce_back, Bump (bump_fees fs (Decimal_int BUMP_PCT))]))))"
  by pat_completeness auto
termination
  by (relation "measure (\<lambda>(w, acct, max_wait, max_retries, attempt, t, fs, nm, evs).
                   nat (max_retries - int attempt))") auto

declare rbf_loop.simps [simp del]

text \<open>
  \<^verbatim>\<open>send_with_rbf\<close>. The two scripts differ in the fallback gas limit only, the first
  parameter here. \<open>bump_pct\<close> is the function's last parameter.
\<close>

definition send_with_rbf ::
  "nat \<Rightarrow> w3 \<Rightarrow> account \<Rightarrow> NonceManager \<Rightarrow> tx_fields \<Rightarrow> int \<Rightarrow> int \<Rightarrow> decimal \<Rightarrow>
     (error + outcome \<times> string) \<times> NonceManager \<times> event list" where
  "send_with_rbf fallback w acct nonce_mgr tx_flds max_wait max_retries bump_pct =
     (case nonce_next nonce_mgr of
        (n, nm1) \<Rightarrow>
          (case estimate_gas_safe w (with_nonce tx_flds n) (Some fallback) of
             Inl err \<Rightarrow> (Inl err, nm1, [Nonce_next n])
           | Inr g \<Rightarrow>
               rbf_loop w acct max_wait max_retries 0
                 (with_gas (with_nonce tx_flds n) g)
                 \<lparr> maxPriorityFeePerGas = maxPriorityFeePerGas tx_flds,
                   maxFeePerGas = maxFeePerGas tx_flds \<rparr>
                 nm1
                 [Nonce_next n, Estimate_gas g]))"

definition send_with_rbf_deposit ::
  "w3 \<Rightarrow> account \<Rightarrow> NonceManager \<Rightarrow> tx_fields \<Rightarrow> int \<Rightarrow> int \<Rightarrow> decimal \<Rightarrow>
     (error + outcome \<times> string) \<times> NonceManager \<times> event list" where
  "send_with_rbf_deposit = send_with_rbf 120000"

definition send_with_rbf_cooldown ::
  "w3 \<Rightarrow> account \<Rightarrow> NonceManager \<Rightarrow> tx_fields \<Rightarrow> int \<Rightarrow> int \<Rightarrow> decimal \<Rightarrow>
     (error + outcome \<times> string) \<times> NonceManager \<times> event list" where
  "send_with_rbf_cooldown = send_with_rbf 140000"

text \<open>
  Successive Operations on one nonce manager, as \<^verbatim>\<open>ensure_infinite_approve\<close> and
  \<^verbatim>\<open>step_deposit\<close> run them: each is one call of \<^verbatim>\<open>send_with_rbf\<close> with its
  transaction fields, against the node as it answers during that call. An exception
  ends the sequence (the caller abandons the wallet). The result lists, per Operation,
  the nonce placed in \<^verbatim>\<open>tx["nonce"]\<close> and how the call ended.
\<close>

record operation =
  op_node :: w3
  op_fields :: tx_fields
  op_max_wait :: int
  op_max_retries :: int
  op_bump_pct :: decimal

fun run_operations ::
  "nat \<Rightarrow> account \<Rightarrow> operation list \<Rightarrow> NonceManager \<Rightarrow> (int \<times> (error + outcome \<times> string)) list" where
  "run_operations fallback acct [] nm = []"
| "run_operations fallback acct (p # ps) nm =
     (case send_with_rbf fallback (op_node p) acct nm (op_fields p)
             (op_max_wait p) (op_max_retries p) (op_bump_pct p) of
        (res, nm', evs) \<Rightarrow>
          (fst (nonce_next nm), res) #
          (case res of
             Inl err \<Rightarrow> []
           | Inr r \<Rightarrow> run_operations fallback acct ps nm'))"

section \<open>Reading the event list\<close>

text \<open>
  \<open>broadcasts\<close> lists the transactions sent, in order. \<open>frame_tx t0 t\<close> says that
  \<open>t\<close> and \<open>t0\<close> agree on every key but the two fee keys; \<open>frame_event t0\<close>
  holds of the events a round of the loop may add when every transaction it sends is
  such a \<open>t\<close>.
\<close>

fun broadcasts :: "event list \<Rightarrow> tx list" where
  "broadcasts [] = []"
| "broadcasts (Broadcast t h # es) = t # broadcasts es"
| "broadcasts (e # es) = broadcasts es"

definition frame_tx :: "tx \<Rightarrow> tx \<Rightarrow> bool" where
  "frame_tx t0 t =
     (chainId t = chainId t0 \<and> from_addr t = from_addr t0 \<and> to_addr t = to_addr t0 \<and>
      value_wei t = value_wei t0 \<and> data t = data t0 \<and> nonce t = nonce t0 \<and>
      gas t = gas t0)"

fun frame_event :: "tx \<Rightarrow> event \<Rightarrow> bool" where
  "frame_event t0 (Broadcast t h) = frame_tx t0 t"
| "frame_event t0 Nonce_back = True"
| "frame_event t0 (Bump f) = True"
| "frame_event t0 (Nonce_next n) = False"
| "frame_event t0 (Estimate_gas g) = False"

section \<open>Example inputs\<close>

text \<open>
  A signer that always signs, a draft, a nonce manager at 5, and nodes that differ in
  how they answer the receipt polls: never, from the second round on, at once with
  success, at once with a reverted receipt. \<open>node_base1\<close> reports a base fee of 1 and
  \<open>node_huge\<close> a gas estimate of 29 digits.
\<close>

definition signer :: account where
  "signer = \<lparr> acct_address = ''0xA1'', sign_transaction = (\<lambda>t. Some ''raw'') \<rparr>"

definition tx_example :: tx_fields where
  "tx_example =
     \<lparr> maxPriorityFeePerGas = 1000, maxFeePerGas = 3000, chainId = 1,
       from_addr = ''0xA1'', to_addr = ''0xB2'', value_wei = 0, data = ''0xd0'' \<rparr>"

definition hash_of :: "nat \<Rightarrow> string" where
  "hash_of k =
     (if k = 0 then ''0xh0'' else if k = 1 then ''0xh1'' else if k = 2 then ''0xh2'' else ''0xh3'')"

definition node_of :: "(nat \<Rightarrow> poll list) \<Rightarrow> w3" where
  "node_of polls =
     \<lparr> fee_history = Some [10, 20, 30], gas_price = Some 25,
       estimate_gas = (\<lambda>d. Some 50000),
       send_raw_transaction = (\<lambda>k raw. Some (hash_of k)),
       receipt_polls = (\<lambda>max_wait k. polls k) \<rparr>"

definition node_silent :: w3 where
  "node_silent = node_of (\<lambda>k. [Poll_none, Poll_raises])"

definition node_late :: w3 where
  "node_late = node_of (\<lambda>k. if k = 0 then [Poll_none] else [Poll_receipt (Some 1)])"

definition node_prompt :: w3 where
  "node_prompt = node_of (\<lambda>k. [Poll_none, Poll_receipt (Some 1)])"

definition node_reverted :: w3 where
  "node_reverted = node_of (\<lambda>k. [Poll_raises, Poll_receipt None, Poll_receipt (Some 0)])"

definition node_no_history :: w3 where
  "node_no_history = node_silent\<lparr> fee_history := None \<rparr>"

definition node_base1 :: w3 where
  "node_base1 = node_silent\<lparr> fee_history := Some [3, 2, 1] \<rparr>"

definition node_huge :: w3 where
  "node_huge = node_silent\<lparr> estimate_gas := (\<lambda>d. Some (10 ^ 27 + 5)) \<rparr>"

definition node_no_estimate :: w3 where
  "node_no_estimate = node_silent\<lparr> estimate_gas := (\<lambda>d. None) \<rparr>"

definition mgr5 :: NonceManager where
  "mgr5 = \<lparr> address = ''0xA1'', nm_nonce = 5 \<rparr>"

definition op_late :: operation where
  "op_late =
     \<lparr> op_node = node_late, op_fields = tx_example, op_max_wait = MAX_WAIT,
       op_max_retries = MAX_RETRIES, op_bump_pct = Decimal_int BUMP_PCT \<rparr>"

definition op_prompt :: operation where
  "op_prompt =
     \<lparr> op_node = node_prompt, op_fields = tx_example, op_max_wait = MAX_WAIT,
       op_max_retries = MAX_RETRIES, op_bump_pct = Decimal_int BUMP_PCT \<rparr>"

lemmas example_defs =
  signer_def tx_example_def hash_of_def node_of_def node_silent_def node_late_def
  node_prompt_def node_reverted_def node_no_history_def node_base1_def node_huge_def
  node_no_estimate_def mgr5_def op_late_def op_prompt_def MAX_WAIT_def MAX_RETRIES_def

section \<open>Properties of the rounding\<close>

lemma sig_unit_small: "c < 10 ^ 28 \<Longrightarrow> sig_unit c = 1"
  by (simp add: sig_unit.simps)

lemma dec_round_small: "c < 10 ^ 28 \<Longrightarrow> dec_round c = c"
  by (simp add: dec_round_def sig_unit_small)

lemma sig_unit_pos: "0 < sig_unit c"
  by (induction c rule: sig_unit.induct) (subst sig_unit.simps, simp)

lemma sig_unit_upper: "c < 10 ^ 28 * sig_unit c"
proof (induction c rule: sig_unit.induct)
  case (1 c)
  show ?case
  proof (cases "c < 10 ^ 28")
    case True
    then show ?thesis by (simp add: sig_unit_small)
  next
    case False
    with 1 have ih: "c div 10 < 10 ^ 28 * sig_unit (c div 10)" by simp
    have "sig_unit c = 10 * sig_unit (c div 10)"
      using False by (subst sig_unit.simps) simp
    moreover have "c < 10 * (c div 10 + 1)" by presburger
    ultimately show ?thesis using ih by simp
  qed
qed

lemma sig_unit_lower: "10 ^ 27 \<le> c \<Longrightarrow> 10 ^ 27 * sig_unit c \<le> c"
proof (induction c rule: sig_unit.induct)
  case (1 c)
  show ?case
  proof (cases "c < 10 ^ 28")
    case True
    then show ?thesis using 1(2) by (simp add: sig_unit_small)
  next
    case False
    then have "(10::nat) ^ 27 \<le> c div 10" by simp
    with 1 False have ih: "10 ^ 27 * sig_unit (c div 10) \<le> c div 10" by simp
    have "sig_unit c = 10 * sig_unit (c div 10)"
      using False by (subst sig_unit.simps) simp
    moreover have "10 * (c div 10) \<le> c" by presburger
    ultimately show ?thesis using ih by simp
  qed
qed

lemma sig_unit_steps: "c \<le> c' \<Longrightarrow> sig_unit c = sig_unit c' \<or> 10 * sig_unit c \<le> sig_unit c'"
proof (induction c' arbitrary: c rule: sig_unit.induct)
  case (1 c')
  show ?case
  proof (cases "c' < 10 ^ 28")
    case True
    then show ?thesis using 1(2) by (simp add: sig_unit_small)
  next
    case False
    have e': "sig_unit c' = 10 * sig_unit (c' div 10)"
      using False by (subst sig_unit.simps) simp
    show ?thesis
    proof (cases "c < 10 ^ 28")
      case True
      then show ?thesis using e' sig_unit_pos [of "c' div 10"] by (simp add: sig_unit_small)
    next
      case cbig: False
      have e: "sig_unit c = 10 * sig_unit (c div 10)"
        using cbig by (subst sig_unit.simps) simp
      have "c div 10 \<le> c' div 10" using 1(2) by (simp add: div_le_mono)
      with 1(1) False have "sig_unit (c div 10) = sig_unit (c' div 10) \<or> 10 * sig_unit (c div 10) \<le> sig_unit (c' div 10)"
        by simp
      then show ?thesis using e e' by auto
    qed
  qed
qed


lemma half_even_mono:
  fixes u :: nat
  assumes "0 < u" "c \<le> c'"
  shows "(if 2 * (c mod u) < u \<or> (2 * (c mod u) = u \<and> even (c div u)) then c div u else c div u + 1)
       \<le> (if 2 * (c' mod u) < u \<or> (2 * (c' mod u) = u \<and> even (c' div u)) then c' div u else c' div u + 1)"
proof (cases "c div u = c' div u")
  case True
  have "c = c div u * u + c mod u" "c' = c' div u * u + c' mod u" by simp_all
  then have "c mod u \<le> c' mod u" using True assms(2) by (metis add_le_cancel_left)
  then show ?thesis using True by auto
next
  case False
  have "c div u \<le> c' div u" using assms(2) by (simp add: div_le_mono)
  then have "c div u + 1 \<le> c' div u" using False by simp
  then show ?thesis by auto
qed

lemma dec_round_ge_floor: "c div sig_unit c * sig_unit c \<le> dec_round c"
  by (simp add: dec_round_def Let_def)

lemma dec_round_le_ceil: "dec_round c \<le> (c div sig_unit c + 1) * sig_unit c"
  by (simp add: dec_round_def Let_def)

lemma dec_round_mono: "c \<le> c' \<Longrightarrow> dec_round c \<le> dec_round c'"
proof -
  assume le: "c \<le> c'"
  from sig_unit_steps [OF le] show ?thesis
  proof
    assume eq: "sig_unit c = sig_unit c'"
    show ?thesis
      unfolding dec_round_def Let_def eq
      by (rule mult_le_mono1) (rule half_even_mono [OF sig_unit_pos le])
  next
    assume step: "10 * sig_unit c \<le> sig_unit c'"
    have "c div sig_unit c < 10 ^ 28"
      using sig_unit_upper [of c] sig_unit_pos [of c]
      by (simp add: less_mult_imp_div_less)
    then have "(c div sig_unit c + 1) * sig_unit c \<le> 10 ^ 28 * sig_unit c"
      by (intro mult_le_mono1) simp
    then have a: "dec_round c \<le> 10 ^ 28 * sig_unit c"
      using dec_round_le_ceil [of c] by linarith
    have "1 < sig_unit c'" using step sig_unit_pos [of c] by linarith
    then have "\<not> c' < 10 ^ 28" using sig_unit_small [of c'] by auto
    then have "10 ^ 27 * sig_unit c' \<le> c'" by (intro sig_unit_lower) simp
    then have "10 ^ 27 \<le> c' div sig_unit c'"
      using sig_unit_pos [of c'] by (simp add: less_eq_div_iff_mult_less_eq)
    then have "10 ^ 27 * sig_unit c' \<le> c' div sig_unit c' * sig_unit c'"
      by (intro mult_le_mono1)
    then have b: "10 ^ 27 * sig_unit c' \<le> dec_round c'"
      using dec_round_ge_floor [of c'] by linarith
    have "(10::nat) ^ 28 * sig_unit c \<le> 10 ^ 27 * sig_unit c'" using step by simp
    then show ?thesis using a b by linarith
  qed
qed

lemma dec_round_half: "c \<le> 2 * dec_round c"
proof (cases "c < 10 ^ 28")
  case True
  then show ?thesis by (simp add: dec_round_small)
next
  case False
  then have "10 ^ 27 * sig_unit c \<le> c" by (intro sig_unit_lower) simp
  then have "sig_unit c \<le> c" by simp
  then have "1 \<le> c div sig_unit c"
    using sig_unit_pos [of c] by (simp add: less_eq_div_iff_mult_less_eq)
  then have "sig_unit c \<le> c div sig_unit c * sig_unit c" by simp
  moreover have "c = c div sig_unit c * sig_unit c + c mod sig_unit c" by simp
  moreover have "c mod sig_unit c < sig_unit c" using sig_unit_pos [of c] by simp
  ultimately have "c \<le> 2 * (c div sig_unit c * sig_unit c)" by linarith
  then show ?thesis using dec_round_ge_floor [of c] by linarith
qed

section \<open>Fee bump\<close>

lemma bump_scale_pos: "0 < bump_scale p"
  by (simp add: bump_scale_def)

lemma bump_mul_small:
  "bump_scale p + coefficient p < 10 ^ 28 \<Longrightarrow> bump_mul p = bump_scale p + coefficient p"
  by (simp add: bump_mul_def dec_round_small)

lemma bump_field_mono: "a \<le> b \<Longrightarrow> dec_round (a * m) div d \<le> dec_round (b * m) div d"
  by (intro div_le_mono dec_round_mono mult_le_mono1)

lemma floor_bump_eq: "0 < s \<Longrightarrow> (f::nat) * (s + c) div s = f + f * c div s"
  by (simp add: algebra_simps)

lemma floor_bump_ge: "0 < s \<Longrightarrow> (f::nat) \<le> f * (s + c) div s"
  by (simp add: floor_bump_eq)

lemma floor_bump_strict: "0 < s \<Longrightarrow> (f::nat) < f * (s + c) div s \<longleftrightarrow> s \<le> f * c"
  by (simp add: floor_bump_eq div_greater_zero_iff)

text \<open>
  C3, as the code has it. Write the percentage \<open>p\<close> as \<open>c / 10 ^ places\<close> and let
  \<open>s = 10 ^ (places + 2)\<close>, so that \<open>1 + p/100 = (s + c) / s\<close>. When \<open>s + c\<close> and
  the products of both fields with \<open>s + c\<close> stay below \<open>10 ^ 28\<close> (where the 28-digit
  context is exact), \<open>bump_fees\<close> returns \<open>\<lfloor>field \<times> (1 + p/100)\<rfloor>\<close> in both
  fields. Neither field decreases, and a field grows strictly exactly when
  \<open>field \<times> c \<ge> s\<close>, that is \<open>field \<times> p \<ge> 100\<close>: the rounding down leaves a small
  field where it was.
\<close>

theorem bump_fees_floor:
  assumes "bump_scale p + coefficient p < 10 ^ 28"
    and "maxPriorityFeePerGas b * (bump_scale p + coefficient p) < 10 ^ 28"
    and "maxFeePerGas b * (bump_scale p + coefficient p) < 10 ^ 28"
  shows "maxPriorityFeePerGas (bump_fees b p)
           = maxPriorityFeePerGas b * (bump_scale p + coefficient p) div bump_scale p
       \<and> maxFeePerGas (bump_fees b p)
           = maxFeePerGas b * (bump_scale p + coefficient p) div bump_scale p
       \<and> maxPriorityFeePerGas b \<le> maxPriorityFeePerGas (bump_fees b p)
       \<and> maxFeePerGas b \<le> maxFeePerGas (bump_fees b p)
       \<and> (maxPriorityFeePerGas b < maxPriorityFeePerGas (bump_fees b p)
            \<longleftrightarrow> bump_scale p \<le> maxPriorityFeePerGas b * coefficient p)
       \<and> (maxFeePerGas b < maxFeePerGas (bump_fees b p)
            \<longleftrightarrow> bump_scale p \<le> maxFeePerGas b * coefficient p)"
proof -
  have pr: "maxPriorityFeePerGas (bump_fees b p)
      = maxPriorityFeePerGas b * (bump_scale p + coefficient p) div bump_scale p"
    using assms(1,2) by (simp add: bump_fees_def Let_def bump_mul_small dec_round_small)
  have mx: "maxFeePerGas (bump_fees b p)
      = maxFeePerGas b * (bump_scale p + coefficient p) div bump_scale p"
    using assms(1,3) by (simp add: bump_fees_def Let_def bump_mul_small dec_round_small)
  show ?thesis
    unfolding pr mx
    using floor_bump_ge [OF bump_scale_pos] floor_bump_strict [OF bump_scale_pos] by blast
qed

text \<open>
  The bid (1000, 4) at 20 percent: 1000 becomes 1200, 4 stays 4. At 12.5 percent:
  1000 becomes 1125, 4 stays 4.
\<close>

theorem bump_fees_floor_witness:
  "maxPriorityFeePerGas
      (bump_fees \<lparr>maxPriorityFeePerGas = 1000, maxFeePerGas = 4\<rparr> (Decimal_int 20)) = 1200
   \<and> maxFeePerGas
      (bump_fees \<lparr>maxPriorityFeePerGas = 1000, maxFeePerGas = 4\<rparr> (Decimal_int 20)) = 4
   \<and> maxPriorityFeePerGas
      (bump_fees \<lparr>maxPriorityFeePerGas = 1000, maxFeePerGas = 4\<rparr>
         \<lparr>coefficient = 125, places = 1\<rparr>) = 1125
   \<and> maxFeePerGas
      (bump_fees \<lparr>maxPriorityFeePerGas = 1000, maxFeePerGas = 4\<rparr>
         \<lparr>coefficient = 125, places = 1\<rparr>) = 4"
  using bump_fees_floor [of "Decimal_int 20" "\<lparr>maxPriorityFeePerGas = 1000, maxFeePerGas = 4\<rparr>"]
    bump_fees_floor [of "\<lparr>coefficient = 125, places = 1\<rparr>"
      "\<lparr>maxPriorityFeePerGas = 1000, maxFeePerGas = 4\<rparr>"]
  by (simp add: bump_scale_def Decimal_int_def)

text \<open>
  C3 as stated fails: at 20 percent the bid (1, 4) is returned unchanged
  (\<^verbatim>\<open>int(1.2) = 1\<close>, \<^verbatim>\<open>int(4.8) = 4\<close>), so neither field is strictly greater.
\<close>

theorem bump_fees_strict_counterexample:
  "\<not> (maxPriorityFeePerGas \<lparr>maxPriorityFeePerGas = 1, maxFeePerGas = 4\<rparr>
         < maxPriorityFeePerGas
             (bump_fees \<lparr>maxPriorityFeePerGas = 1, maxFeePerGas = 4\<rparr> (Decimal_int 20))
       \<and> maxFeePerGas \<lparr>maxPriorityFeePerGas = 1, maxFeePerGas = 4\<rparr>
         < maxFeePerGas
             (bump_fees \<lparr>maxPriorityFeePerGas = 1, maxFeePerGas = 4\<rparr> (Decimal_int 20)))"
  by (simp add: bump_fees_def Let_def bump_mul_def bump_scale_def Decimal_int_def dec_round_small)

text \<open>
  Beyond 28 digits the product is rounded before \<^verbatim>\<open>int\<close> truncates it: a fee of
  \<open>10 ^ 27 + 3\<close> at 20 percent comes out one above the floor.
\<close>

lemma bump_fees_rounds_large:
  "maxFeePerGas
     (bump_fees \<lparr>maxPriorityFeePerGas = 0, maxFeePerGas = 10 ^ 27 + 3\<rparr> (Decimal_int 20))
     = (10 ^ 27 + 3) * 120 div 100 + 1"
proof -
  have "bump_mul (Decimal_int 20) = 120"
    by (simp add: bump_mul_def bump_scale_def Decimal_int_def dec_round_small)
  moreover have "bump_scale (Decimal_int 20) = 100"
    by (simp add: bump_scale_def Decimal_int_def)
  moreover have "dec_round ((10 ^ 27 + 3) * 120) div 100 = (10 ^ 27 + 3) * 120 div 100 + 1"
    by (simp add: dec_round_def sig_unit.simps)
  ultimately show ?thesis by (simp add: bump_fees_def)
qed

section \<open>The fee-bid invariant\<close>

text \<open>
  C5. Every bid that \<open>suggest_fees\<close> returns has
  \<open>maxFeePerGas \<ge> maxPriorityFeePerGas\<close>, on the fee-history path and on the gas-price
  path alike, and \<open>bump_fees\<close> keeps the inequality, for every bid and every
  percentage. Both hold with the rounding of the context taken into account.
\<close>

theorem fee_invariant:
  "(suggest_fees w priority = Inr b \<longrightarrow> maxPriorityFeePerGas b \<le> maxFeePerGas b)
   \<and> (maxPriorityFeePerGas b' \<le> maxFeePerGas b'
        \<longrightarrow> maxPriorityFeePerGas (bump_fees b' p) \<le> maxFeePerGas (bump_fees b' p))"
proof (intro conjI impI)
  assume s: "suggest_fees w priority = Inr b"
  then obtain base where b: "b = \<lparr>maxPriorityFeePerGas = priority,
      maxFeePerGas = dec_round (base + priority * 2)\<rparr>"
    by (auto simp: suggest_fees_def split: option.splits list.splits)
  have "base + priority * 2 \<le> 2 * dec_round (base + priority * 2)" by (rule dec_round_half)
  then show "maxPriorityFeePerGas b \<le> maxFeePerGas b" by (simp add: b)
next
  assume "maxPriorityFeePerGas b' \<le> maxFeePerGas b'"
  then show "maxPriorityFeePerGas (bump_fees b' p) \<le> maxFeePerGas (bump_fees b' p)"
    by (simp add: bump_fees_def Let_def bump_field_mono)
qed

text \<open>
  With the fee history unavailable and a gas price of 25, a hint of 1.5 gwei gives the
  bid (1500000000, 3000000025); the bid and its bump at 20 percent satisfy the
  invariant.
\<close>

theorem fee_invariant_witness:
  "suggest_fees node_no_history 1500000000
      = Inr \<lparr>maxPriorityFeePerGas = 1500000000, maxFeePerGas = 3000000025\<rparr>
   \<and> maxPriorityFeePerGas \<lparr>maxPriorityFeePerGas = 1500000000, maxFeePerGas = 3000000025\<rparr>
      \<le> maxFeePerGas \<lparr>maxPriorityFeePerGas = 1500000000, maxFeePerGas = 3000000025\<rparr>
   \<and> maxPriorityFeePerGas
        (bump_fees \<lparr>maxPriorityFeePerGas = 1500000000, maxFeePerGas = 3000000025\<rparr> (Decimal_int 20))
      \<le> maxFeePerGas
        (bump_fees \<lparr>maxPriorityFeePerGas = 1500000000, maxFeePerGas = 3000000025\<rparr> (Decimal_int 20))"
proof -
  have s: "suggest_fees node_no_history 1500000000
      = Inr \<lparr>maxPriorityFeePerGas = 1500000000, maxFeePerGas = 3000000025\<rparr>"
    by (simp add: suggest_fees_def example_defs dec_round_small)
  show ?thesis
    using s fee_invariant [of node_no_history 1500000000
        "\<lparr>maxPriorityFeePerGas = 1500000000, maxFeePerGas = 3000000025\<rparr>"
        "\<lparr>maxPriorityFeePerGas = 1500000000, maxFeePerGas = 3000000025\<rparr>" "Decimal_int 20"]
    by simp
qed

section \<open>Initial fee bid\<close>

text \<open>
  C6, as the code has it. With \<open>priority\<close> the hint in wei: when the fee history has
  entries, the bid is \<open>(priority, last entry + 2 \<times> priority)\<close>; when it is unavailable
  or empty and the gas price is \<open>gp\<close>, the bid is \<open>(priority, gp + 2 \<times> priority)\<close>;
  each provided the sum stays below \<open>10 ^ 28\<close>. Two nodes that answer the two queries
  alike give the same result.
\<close>

theorem suggest_fees_bid:
  "(fee_history w = Some bs \<and> bs \<noteq> [] \<and> last bs + 2 * priority < 10 ^ 28
      \<longrightarrow> suggest_fees w priority
          = Inr \<lparr>maxPriorityFeePerGas = priority, maxFeePerGas = last bs + 2 * priority\<rparr>)
   \<and> ((fee_history w = None \<or> fee_history w = Some []) \<and> gas_price w = Some gp
        \<and> gp + 2 * priority < 10 ^ 28
      \<longrightarrow> suggest_fees w priority
          = Inr \<lparr>maxPriorityFeePerGas = priority, maxFeePerGas = gp + 2 * priority\<rparr>)
   \<and> (fee_history w' = fee_history w \<and> gas_price w' = gas_price w
      \<longrightarrow> suggest_fees w' priority = suggest_fees w priority)"
  by (auto simp: suggest_fees_def dec_round_small mult.commute split: option.splits list.splits)

text \<open>
  A history ending in 30 gives 3000000030, the fallback price 25 gives 3000000025, and
  two nodes with the same history and price agree.
\<close>

theorem suggest_fees_bid_witness:
  "suggest_fees node_silent 1500000000
      = Inr \<lparr>maxPriorityFeePerGas = 1500000000, maxFeePerGas = 3000000030\<rparr>
   \<and> suggest_fees node_no_history 1500000000
      = Inr \<lparr>maxPriorityFeePerGas = 1500000000, maxFeePerGas = 3000000025\<rparr>
   \<and> suggest_fees node_late 1500000000 = suggest_fees node_silent 1500000000"
  using suggest_fees_bid [of node_silent "[10, 20, 30]" 1500000000 0 node_late]
    suggest_fees_bid [of node_no_history "[]" 1500000000 25 node_late]
  by (simp add: example_defs)

text \<open>
  C6 as stated fails for a hint of \<open>5 \<times> 10 ^ 27\<close> wei over a base fee of 1: the sum
  \<open>10 ^ 28 + 1\<close> has 29 digits and the context rounds it to \<open>10 ^ 28\<close>.
\<close>

theorem suggest_fees_sum_counterexample:
  "suggest_fees node_base1 (5 * 10 ^ 27)
     \<noteq> Inr \<lparr>maxPriorityFeePerGas = 5 * 10 ^ 27, maxFeePerGas = 1 + 2 * (5 * 10 ^ 27)\<rparr>"
  by (simp add: suggest_fees_def example_defs dec_round_def sig_unit.simps)

section \<open>Gas estimate\<close>

text \<open>
  C7, as the code has it. A successful estimate \<open>g\<close> with \<open>110 \<times> g < 10 ^ 28\<close> gives
  \<open>\<lfloor>1.10 \<times> g\<rfloor>\<close>; a failed estimate gives the fallback when there is one; and the
  function raises exactly when the estimate fails and there is no fallback.
\<close>

theorem estimate_gas_safe_cases:
  "(estimate_gas w d = Some g \<and> g * 110 < 10 ^ 28
      \<longrightarrow> estimate_gas_safe w d fb = Inr (g * 110 div 100))
   \<and> (estimate_gas w d = None \<longrightarrow> estimate_gas_safe w d (Some f) = Inr f)
   \<and> ((\<exists>e. estimate_gas_safe w d fb = Inl e) \<longleftrightarrow> estimate_gas w d = None \<and> fb = None)"
  by (auto simp: estimate_gas_safe_def dec_round_small split: option.splits)

text \<open>
  An estimate of 50000 gives 55000; a failed estimate with fallback 120000 gives
  120000; a failed estimate without fallback raises.
\<close>

theorem estimate_gas_safe_cases_witness:
  "estimate_gas_safe node_silent (with_nonce tx_example 5) None = Inr 55000
   \<and> estimate_gas_safe node_no_estimate (with_nonce tx_example 5) (Some 120000) = Inr 120000
   \<and> (\<exists>e. estimate_gas_safe node_no_estimate (with_nonce tx_example 5) None = Inl e)"
  using estimate_gas_safe_cases [of node_silent "with_nonce tx_example 5" 50000 None 120000]
    estimate_gas_safe_cases [of node_no_estimate "with_nonce tx_example 5" 0 None 120000]
  by (simp add: example_defs)

text \<open>
  C7 as stated fails for an estimate of \<open>10 ^ 27 + 5\<close>: the product has 30 digits, the
  context rounds it (a tie, to the even neighbour), and the result is one above
  \<open>\<lfloor>1.10 \<times> g\<rfloor>\<close>.
\<close>

theorem estimate_gas_margin_counterexample:
  "estimate_gas_safe node_huge (with_nonce tx_example 5) (Some 120000)
     \<noteq> Inr ((10 ^ 27 + 5) * 110 div 100)"
  by (simp add: estimate_gas_safe_def example_defs dec_round_def sig_unit.simps)

section \<open>One round of the sender\<close>

text \<open>
  The five ways through one pass of the outer loop: signing raises, the broadcast
  raises, a receipt with a status arrives, the wait ends with the retries used up, the
  wait ends with a retry left.
\<close>

lemma rbf_loop_sign_fails:
  "sign_transaction acct t = None \<Longrightarrow>
   rbf_loop w acct mw mr k t fs nm evs = (Inl Signing_failed, nm, evs)"
  by (subst rbf_loop.simps) simp

lemma rbf_loop_send_fails:
  "sign_transaction acct t = Some raw \<Longrightarrow> send_raw_transaction w k raw = None \<Longrightarrow>
   rbf_loop w acct mw mr k t fs nm evs = (Inl Broadcast_failed, nm, evs)"
  by (subst rbf_loop.simps) simp

lemma rbf_loop_receipt:
  "sign_transaction acct t = Some raw \<Longrightarrow> send_raw_transaction w k raw = Some h \<Longrightarrow>
   poll_loop (receipt_polls w mw k) = Some st \<Longrightarrow>
   rbf_loop w acct mw mr k t fs nm evs
     = (Inr (if st = 1 then Confirmed_Success else Confirmed_Failure, h), nm,
        evs @ [Broadcast t h])"
  by (subst rbf_loop.simps) simp

lemma rbf_loop_abandon:
  "sign_transaction acct t = Some raw \<Longrightarrow> send_raw_transaction w k raw = Some h \<Longrightarrow>
   poll_loop (receipt_polls w mw k) = None \<Longrightarrow> mr < int (k + 1) \<Longrightarrow>
   rbf_loop w acct mw mr k t fs nm evs = (Inr (Abandoned, h), nm, evs @ [Broadcast t h])"
  by (subst rbf_loop.simps) simp

lemma rbf_loop_replace:
  "sign_transaction acct t = Some raw \<Longrightarrow> send_raw_transaction w k raw = Some h \<Longrightarrow>
   poll_loop (receipt_polls w mw k) = None \<Longrightarrow> \<not> mr < int (k + 1) \<Longrightarrow>
   rbf_loop w acct mw mr k t fs nm evs
     = rbf_loop w acct mw mr (k + 1)
         (t\<lparr> maxPriorityFeePerGas := maxPriorityFeePerGas (bump_fees fs (Decimal_int BUMP_PCT)),
             maxFeePerGas := maxFeePerGas (bump_fees fs (Decimal_int BUMP_PCT)) \<rparr>)
         (bump_fees fs (Decimal_int BUMP_PCT)) (nonce_back nm)
         (evs @ [Broadcast t h, Nonce_back, Bump (bump_fees fs (Decimal_int BUMP_PCT))])"
  by (subst rbf_loop.simps) simp

lemma frame_tx_refl: "frame_tx t t"
  by (simp add: frame_tx_def)

lemma frame_tx_fees:
  "frame_tx t0 t \<Longrightarrow> frame_tx t0 (t\<lparr> maxPriorityFeePerGas := a, maxFeePerGas := b \<rparr>)"
  by (simp add: frame_tx_def)

lemma rbf_loop_frame:
  "frame_tx t0 t \<Longrightarrow>
   \<exists>new. snd (snd (rbf_loop w acct mw mr k t fs nm evs)) = evs @ new
       \<and> list_all (frame_event t0) new"
proof (induction w acct mw mr k t fs nm evs rule: rbf_loop.induct)
  case (1 w acct mw mr k t fs nm evs)
  show ?case
  proof (cases "sign_transaction acct t")
    case None
    then show ?thesis by (simp add: rbf_loop_sign_fails)
  next
    case signed: (Some raw)
    show ?thesis
    proof (cases "send_raw_transaction w k raw")
      case None
      with signed show ?thesis by (simp add: rbf_loop_send_fails)
    next
      case sent: (Some h)
      show ?thesis
      proof (cases "poll_loop (receipt_polls w mw k)")
        case (Some st)
        show ?thesis
          using "1.prems" by (simp add: rbf_loop_receipt [OF signed sent Some])
      next
        case timeout: None
        show ?thesis
        proof (cases "mr < int (k + 1)")
          case True
          show ?thesis
            using "1.prems" by (simp add: rbf_loop_abandon [OF signed sent timeout True])
        next
          case False
          from "1.IH" [OF signed sent timeout False frame_tx_fees [OF "1.prems"]]
          obtain new where
            "snd (snd (rbf_loop w acct mw mr (k + 1)
                (t\<lparr> maxPriorityFeePerGas := maxPriorityFeePerGas (bump_fees fs (Decimal_int BUMP_PCT)),
                    maxFeePerGas := maxFeePerGas (bump_fees fs (Decimal_int BUMP_PCT)) \<rparr>)
                (bump_fees fs (Decimal_int BUMP_PCT)) (nonce_back nm)
                (evs @ [Broadcast t h, Nonce_back, Bump (bump_fees fs (Decimal_int BUMP_PCT))])))
             = (evs @ [Broadcast t h, Nonce_back, Bump (bump_fees fs (Decimal_int BUMP_PCT))]) @ new"
            and "list_all (frame_event t0) new"
            by blast
          then show ?thesis
            using "1.prems"
            by (intro exI [of _ "[Broadcast t h, Nonce_back, Bump (bump_fees fs (Decimal_int BUMP_PCT))] @ new"])
               (simp add: rbf_loop_replace [OF signed sent timeout False])
        qed
      qed
    qed
  qed
qed

lemma estimate_with_fallback:
  "\<exists>g. estimate_gas_safe w d (Some fb) = Inr g"
  by (simp add: estimate_gas_safe_def split: option.splits)

lemmas run_defs =
  send_with_rbf_def send_with_rbf_cooldown_def send_with_rbf_deposit_def rbf_loop.simps
  nonce_next_def nonce_back_def estimate_gas_safe_def with_nonce_def with_gas_def
  bump_fees_def bump_mul_def bump_scale_def Decimal_int_def dec_round_small Let_def BUMP_PCT_def

lemma run_late:
  "send_with_rbf_deposit node_late signer mgr5 tx_example MAX_WAIT MAX_RETRIES (Decimal_int BUMP_PCT)
     = (Inr (Confirmed_Success, ''0xh1''), mgr5,
        [Nonce_next 5, Estimate_gas 55000,
         Broadcast (with_gas (with_nonce tx_example 5) 55000) ''0xh0'',
         Nonce_back, Bump \<lparr>maxPriorityFeePerGas = 1200, maxFeePerGas = 3600\<rparr>,
         Broadcast (with_gas (with_nonce tx_example 5) 55000
                     \<lparr>maxPriorityFeePerGas := 1200, maxFeePerGas := 3600\<rparr>) ''0xh1''])"
  by (simp add: run_defs example_defs)

section \<open>What a call leaves unchanged\<close>

text \<open>
  C10. A call of \<open>send_with_rbf\<close> takes the nonce, then computes the gas limit
  \<open>g\<close>, once and before anything is sent: the event list starts with these two events
  and has no other of either kind. Every transaction broadcast afterwards agrees with
  the first one, \<open>tx_fields\<close> with that nonce and that gas limit, on chain id,
  sender, destination, value, call data, nonce and gas; only the two fee fields may
  differ between attempts.
\<close>

theorem send_with_rbf_frame:
  assumes "send_with_rbf fallback w acct nm txf mw mr p = (res, nm', evs)"
  shows "\<exists>g rest. estimate_gas_safe w (with_nonce txf (nm_nonce nm)) (Some fallback) = Inr g
           \<and> evs = [Nonce_next (nm_nonce nm), Estimate_gas g] @ rest
           \<and> list_all (frame_event (with_gas (with_nonce txf (nm_nonce nm)) g)) rest"
proof -
  obtain g where g: "estimate_gas_safe w (with_nonce txf (nm_nonce nm)) (Some fallback) = Inr g"
    using estimate_with_fallback by blast
  let ?t0 = "with_gas (with_nonce txf (nm_nonce nm)) g"
  have "frame_tx ?t0 ?t0" by (rule frame_tx_refl)
  from rbf_loop_frame [OF this]
  obtain rest where "snd (snd (rbf_loop w acct mw mr 0 ?t0
      \<lparr>maxPriorityFeePerGas = maxPriorityFeePerGas txf, maxFeePerGas = maxFeePerGas txf\<rparr>
      (snd (nonce_next nm)) [Nonce_next (nm_nonce nm), Estimate_gas g]))
      = [Nonce_next (nm_nonce nm), Estimate_gas g] @ rest"
    and fr: "list_all (frame_event ?t0) rest"
    by blast
  then have "evs = [Nonce_next (nm_nonce nm), Estimate_gas g] @ rest"
    using assms g by (simp add: send_with_rbf_def nonce_next_def)
  with g fr show ?thesis by blast
qed

text \<open>
  The run in which the node is silent in round 0 and confirms in round 1: two
  broadcasts that differ in the fee fields only.
\<close>

theorem send_with_rbf_frame_witness:
  "\<exists>g rest.
      estimate_gas_safe node_late (with_nonce tx_example (nm_nonce mgr5)) (Some 120000) = Inr g
    \<and> [Nonce_next 5, Estimate_gas 55000,
       Broadcast (with_gas (with_nonce tx_example 5) 55000) ''0xh0'',
       Nonce_back, Bump \<lparr>maxPriorityFeePerGas = 1200, maxFeePerGas = 3600\<rparr>,
       Broadcast (with_gas (with_nonce tx_example 5) 55000
                   \<lparr>maxPriorityFeePerGas := 1200, maxFeePerGas := 3600\<rparr>) ''0xh1'']
      = [Nonce_next (nm_nonce mgr5), Estimate_gas g] @ rest
    \<and> list_all (frame_event (with_gas (with_nonce tx_example (nm_nonce mgr5)) g)) rest"
  by (rule send_with_rbf_frame [OF run_late [unfolded send_with_rbf_deposit_def]])

section \<open>Reverted receipt\<close>

text \<open>
  C8. In any round \<open>k\<close> of the loop, when the transaction is signed and sent with
  hash \<open>h\<close> and the polling finds a receipt whose status is not 1, the call returns
  \<open>h\<close> as a confirmed failure at once: the broadcast of this round is the last
  event (no bump, no further broadcast) and the nonce manager is as the round found it
  (no \<open>back\<close>).
\<close>

theorem failure_receipt_terminates:
  assumes "sign_transaction acct t = Some raw"
    and "send_raw_transaction w k raw = Some h"
    and "poll_loop (receipt_polls w mw k) = Some st"
    and "st \<noteq> 1"
  shows "rbf_loop w acct mw mr k t fs nm evs
           = (Inr (Confirmed_Failure, h), nm, evs @ [Broadcast t h])"
  using rbf_loop_receipt [OF assms(1-3)] assms(4) by simp

text \<open>
  A reverted receipt in the first round: one broadcast, no rollback, the cursor one
  past the nonce used.
\<close>

theorem failure_receipt_terminates_witness:
  "send_with_rbf_deposit node_reverted signer mgr5 tx_example MAX_WAIT MAX_RETRIES (Decimal_int BUMP_PCT)
     = (Inr (Confirmed_Failure, ''0xh0''), mgr5\<lparr> nm_nonce := 6 \<rparr>,
        [Nonce_next 5, Estimate_gas 55000,
         Broadcast (with_gas (with_nonce tx_example 5) 55000) ''0xh0''])"
proof -
  have a: "sign_transaction signer (with_gas (with_nonce tx_example 5) 55000) = Some ''raw''"
    by (simp add: signer_def)
  have b: "send_raw_transaction node_reverted 0 ''raw'' = Some ''0xh0''"
    by (simp add: example_defs)
  have c: "poll_loop (receipt_polls node_reverted MAX_WAIT 0) = Some 0"
    by (simp add: example_defs)
  have d: "(0::int) \<noteq> 1" by simp
  have "rbf_loop node_reverted signer MAX_WAIT MAX_RETRIES 0
      (with_gas (with_nonce tx_example 5) 55000)
      \<lparr>maxPriorityFeePerGas = 1000, maxFeePerGas = 3000\<rparr>
      (mgr5\<lparr> nm_nonce := 6 \<rparr>) [Nonce_next 5, Estimate_gas 55000]
    = (Inr (Confirmed_Failure, ''0xh0''), mgr5\<lparr> nm_nonce := 6 \<rparr>,
       [Nonce_next 5, Estimate_gas 55000] @
       [Broadcast (with_gas (with_nonce tx_example 5) 55000) ''0xh0''])"
    by (rule failure_receipt_terminates [OF a b c d])
  moreover have "estimate_gas_safe node_reverted (with_nonce tx_example 5) (Some 120000) = Inr 55000"
    by (simp add: estimate_gas_safe_def example_defs dec_round_small)
  ultimately show ?thesis
    by (simp add: send_with_rbf_deposit_def send_with_rbf_def nonce_next_def mgr5_def tx_example_def)
qed

section \<open>No retries\<close>

text \<open>
  C9. With \<open>max_retries = 0\<close>, a call whose transaction is signed and sent with hash
  \<open>h\<close> broadcasts exactly once and bumps no fee: it returns \<open>h\<close> with the outcome
  of the only round, which is Abandoned when no receipt arrives within the wait
  budget.
\<close>

theorem max_retries_zero:
  assumes "estimate_gas_safe w (with_nonce txf (nm_nonce nm)) (Some fallback) = Inr g"
    and "sign_transaction acct (with_gas (with_nonce txf (nm_nonce nm)) g) = Some raw"
    and "send_raw_transaction w 0 raw = Some h"
  shows "send_with_rbf fallback w acct nm txf mw 0 p
           = (Inr (case poll_loop (receipt_polls w mw 0) of
                     None \<Rightarrow> Abandoned
                   | Some st \<Rightarrow> if st = 1 then Confirmed_Success else Confirmed_Failure, h),
              snd (nonce_next nm),
              [Nonce_next (nm_nonce nm), Estimate_gas g,
               Broadcast (with_gas (with_nonce txf (nm_nonce nm)) g) h])"
proof (cases "poll_loop (receipt_polls w mw 0)")
  case None
  then show ?thesis
    using assms(1) rbf_loop_abandon [OF assms(2,3) None, of 0]
    by (simp add: send_with_rbf_def nonce_next_def)
next
  case (Some st)
  then show ?thesis
    using assms(1) rbf_loop_receipt [OF assms(2,3) Some]
    by (simp add: send_with_rbf_def nonce_next_def)
qed

text \<open>The silent node with no retries: one broadcast, then Abandoned.\<close>

theorem max_retries_zero_witness:
  "send_with_rbf_deposit node_silent signer mgr5 tx_example MAX_WAIT 0 (Decimal_int BUMP_PCT)
     = (Inr (Abandoned, ''0xh0''), mgr5\<lparr> nm_nonce := 6 \<rparr>,
        [Nonce_next 5, Estimate_gas 55000,
         Broadcast (with_gas (with_nonce tx_example 5) 55000) ''0xh0''])"
proof -
  have "estimate_gas_safe node_silent (with_nonce tx_example (nm_nonce mgr5)) (Some 120000) = Inr 55000"
    by (simp add: estimate_gas_safe_def example_defs dec_round_small)
  moreover have "sign_transaction signer (with_gas (with_nonce tx_example (nm_nonce mgr5)) 55000)
      = Some ''raw''"
    by (simp add: signer_def)
  moreover have "send_raw_transaction node_silent 0 ''raw'' = Some ''0xh0''"
    by (simp add: example_defs)
  ultimately have "send_with_rbf 120000 node_silent signer mgr5 tx_example MAX_WAIT 0 (Decimal_int BUMP_PCT)
     = (Inr (case poll_loop (receipt_polls node_silent MAX_WAIT 0) of
               None \<Rightarrow> Abandoned
             | Some st \<Rightarrow> if st = 1 then Confirmed_Success else Confirmed_Failure, ''0xh0''),
        snd (nonce_next mgr5),
        [Nonce_next (nm_nonce mgr5), Estimate_gas 55000,
         Broadcast (with_gas (with_nonce tx_example (nm_nonce mgr5)) 55000) ''0xh0''])"
    by (rule max_retries_zero)
  then show ?thesis
    by (simp add: send_with_rbf_deposit_def nonce_next_def example_defs)
qed

section \<open>Nonce rollback and bump percentage in the source\<close>

text \<open>
  The source calls \<^verbatim>\<open>nonce_mgr.back()\<close> on every replacement round and not on the
  final timeout. For a call that returns: the rollbacks are one fewer than the
  broadcasts, the last event is the broadcast whose hash is returned, and the cursor
  ends at the nonce used plus one, stepped back once per replacement round.
\<close>

lemma broadcasts_append: "broadcasts (xs @ ys) = broadcasts xs @ broadcasts ys"
  by (induction xs rule: broadcasts.induct) simp_all

lemma rbf_loop_rollbacks:
  "rbf_loop w acct mw mr k t fs nm evs = (Inr r, nm', evs') \<Longrightarrow>
   \<exists>new t' h. evs' = evs @ new @ [Broadcast t' h] \<and> snd r = h
       \<and> length (broadcasts new) = count_list new Nonce_back
       \<and> nm' = (nonce_back ^^ count_list new Nonce_back) nm"
proof (induction w acct mw mr k t fs nm evs rule: rbf_loop.induct)
  case (1 w acct mw mr k t fs nm evs)
  show ?case
  proof (cases "sign_transaction acct t")
    case None
    then show ?thesis using "1.prems" by (simp add: rbf_loop_sign_fails)
  next
    case signed: (Some raw)
    show ?thesis
    proof (cases "send_raw_transaction w k raw")
      case None
      with signed show ?thesis using "1.prems" by (simp add: rbf_loop_send_fails)
    next
      case sent: (Some h)
      show ?thesis
      proof (cases "poll_loop (receipt_polls w mw k)")
        case (Some st)
        show ?thesis
          using "1.prems" unfolding rbf_loop_receipt [OF signed sent Some]
          by (intro exI [of _ "[]"]) auto
      next
        case timeout: None
        show ?thesis
        proof (cases "mr < int (k + 1)")
          case True
          show ?thesis
            using "1.prems" unfolding rbf_loop_abandon [OF signed sent timeout True]
            by (intro exI [of _ "[]"]) auto
        next
          case False
          from "1.IH" [OF signed sent timeout False
              "1.prems" [unfolded rbf_loop_replace [OF signed sent timeout False]]]
          obtain new t' h' where
            e: "evs' = (evs @ [Broadcast t h, Nonce_back, Bump (bump_fees fs (Decimal_int BUMP_PCT))])
                        @ new @ [Broadcast t' h']"
            and r: "snd r = h'"
            and c: "length (broadcasts new) = count_list new Nonce_back"
            and n: "nm' = (nonce_back ^^ count_list new Nonce_back) (nonce_back nm)"
            by blast
          let ?new = "[Broadcast t h, Nonce_back, Bump (bump_fees fs (Decimal_int BUMP_PCT))] @ new"
          have "evs' = evs @ ?new @ [Broadcast t' h']" using e by simp
          moreover have "length (broadcasts ?new) = count_list ?new Nonce_back"
            using c by simp
          moreover have "nm' = (nonce_back ^^ count_list ?new Nonce_back) nm"
            using n by (simp add: funpow_swap1)
          ultimately show ?thesis using r by blast
        qed
      qed
    qed
  qed
qed

lemma send_with_rbf_rollbacks:
  assumes "send_with_rbf fallback w acct nm txf mw mr p = (Inr r, nm', evs)"
  shows "length (broadcasts evs) = Suc (count_list evs Nonce_back)
       \<and> nm' = (nonce_back ^^ count_list evs Nonce_back) (snd (nonce_next nm))
       \<and> (\<exists>t h. last evs = Broadcast t h \<and> snd r = h)"
proof -
  obtain g where g: "estimate_gas_safe w (with_nonce txf (nm_nonce nm)) (Some fallback) = Inr g"
    using estimate_with_fallback by blast
  from assms g have "rbf_loop w acct mw mr 0 (with_gas (with_nonce txf (nm_nonce nm)) g)
      \<lparr>maxPriorityFeePerGas = maxPriorityFeePerGas txf, maxFeePerGas = maxFeePerGas txf\<rparr>
      (snd (nonce_next nm)) [Nonce_next (nm_nonce nm), Estimate_gas g] = (Inr r, nm', evs)"
    by (simp add: send_with_rbf_def nonce_next_def)
  from rbf_loop_rollbacks [OF this] obtain new t' h where
    "evs = [Nonce_next (nm_nonce nm), Estimate_gas g] @ new @ [Broadcast t' h]"
    "snd r = h" "length (broadcasts new) = count_list new Nonce_back"
    "nm' = (nonce_back ^^ count_list new Nonce_back) (snd (nonce_next nm))"
    by blast
  then show ?thesis by (simp add: broadcasts_append)
qed

lemma nonce_back_funpow:
  "0 \<le> nm_nonce m \<Longrightarrow> nm_nonce ((nonce_back ^^ j) m) = max 0 (nm_nonce m - int j)"
  by (induction j) (simp_all add: nonce_back_def)

lemma next_nonce_after_operation:
  assumes "0 \<le> nm_nonce nm"
    and "send_with_rbf fallback w acct nm txf mw mr p = (Inr r, nm', evs)"
  shows "nm_nonce nm' = max 0 (nm_nonce nm + 1 - int (count_list evs Nonce_back))"
proof -
  have "0 \<le> nm_nonce (snd (nonce_next nm))" using assms(1) by (simp add: nonce_next_def)
  from nonce_back_funpow [OF this] send_with_rbf_rollbacks [OF assms(2)]
  show ?thesis by (simp add: nonce_next_def)
qed

text \<open>
  C2, at the input of Scenario B (\<open>max_retries = 2\<close>, no receipt in any round). The
  source rolls the cursor back twice, once before each of the two bumps, and not after
  the third timeout: the cursor ends at 4, below the nonce 5 the call used.
\<close>

theorem rollback_on_replacement_rounds:
  "send_with_rbf_cooldown node_silent signer mgr5 tx_example MAX_WAIT 2 (Decimal_int BUMP_PCT)
     = (Inr (Abandoned, ''0xh2''), mgr5\<lparr> nm_nonce := 4 \<rparr>,
        [Nonce_next 5, Estimate_gas 55000,
         Broadcast (with_gas (with_nonce tx_example 5) 55000) ''0xh0'',
         Nonce_back, Bump \<lparr>maxPriorityFeePerGas = 1200, maxFeePerGas = 3600\<rparr>,
         Broadcast (with_gas (with_nonce tx_example 5) 55000
                     \<lparr>maxPriorityFeePerGas := 1200, maxFeePerGas := 3600\<rparr>) ''0xh1'',
         Nonce_back, Bump \<lparr>maxPriorityFeePerGas = 1440, maxFeePerGas = 4320\<rparr>,
         Broadcast (with_gas (with_nonce tx_example 5) 55000
                     \<lparr>maxPriorityFeePerGas := 1440, maxFeePerGas := 4320\<rparr>) ''0xh2''])"
  by (simp add: run_defs example_defs)

text \<open>
  C1, at two Operations in a row from cursor 5: the first is confirmed in its second
  round, after one replacement; the second is confirmed at once. Both carry nonce 5.
\<close>

theorem nonce_reused_after_replacement:
  "run_operations 120000 signer [op_late, op_prompt] mgr5
     = [(5, Inr (Confirmed_Success, ''0xh1'')), (5, Inr (Confirmed_Success, ''0xh0''))]"
  by (simp add: run_defs example_defs)

text \<open>
  C4. The parameter \<open>bump_pct\<close> does not occur in the body, which bumps by the module
  constant: a call with \<open>bump_pct = 50\<close> replaces the bid (1000, 3000) by
  (1200, 3600), the bump at 20 percent; at 50 percent it would be (1500, 4500).
\<close>

theorem bump_uses_module_constant:
  "snd (snd (send_with_rbf_deposit node_silent signer mgr5 tx_example MAX_WAIT 1 (Decimal_int 50)))
     = [Nonce_next 5, Estimate_gas 55000,
        Broadcast (with_gas (with_nonce tx_example 5) 55000) ''0xh0'',
        Nonce_back, Bump \<lparr>maxPriorityFeePerGas = 1200, maxFeePerGas = 3600\<rparr>,
        Broadcast (with_gas (with_nonce tx_example 5) 55000
                    \<lparr>maxPriorityFeePerGas := 1200, maxFeePerGas := 3600\<rparr>) ''0xh1'']
   \<and> bump_fees \<lparr>maxPriorityFeePerGas = 1000, maxFeePerGas = 3000\<rparr> (Decimal_int 50)
     = \<lparr>maxPriorityFeePerGas = 1500, maxFeePerGas = 4500\<rparr>"
  by (simp add: run_defs example_defs)

lemma send_with_rbf_bump_pct_unused:
  "send_with_rbf fallback w acct nm txf mw mr p = send_with_rbf fallback w acct nm txf mw mr q"
  by (simp add: send_with_rbf_def)

end
